theory Spec2Isabelle
  imports Main "HOL-Library.Word"
begin

section \<open>Values, errors and the library functions the converter calls\<close>

text \<open>
  The converter returns \<open>(interface{}, error)\<close>. The dynamic values it can return are a
  Go \<open>string\<close>, \<open>int32\<close>, \<open>int64\<close>, \<open>float32\<close>, \<open>float64\<close> and \<open>bool\<close>.
  Strings are byte sequences. Floating-point values are carried as their IEEE bit
  patterns; no arithmetic is done on them here.
\<close>

datatype val =
    VString string
  | VInt32 "32 word"
  | VInt64 "64 word"
  | VFloat32 "32 word"
  | VFloat64 "64 word"
  | VBool bool

text \<open>
  Every \<open>fmt.Errorf\<close> of the source is one constructor, carrying the arguments of the
  format string. \<open>Violation\<close> stands for the errors produced by the validators.
\<close>

datatype error =
    NotImplemented string          \<comment> \<open>"type %s: NOT IMPLEMENTED"\<close>
  | ValuesCount nat                \<comment> \<open>"values count is %d, want 1"\<close>
  | UnknownType string             \<comment> \<open>"unknown type: %s"\<close>
  | UnknownFormat string string    \<comment> \<open>"unknown format %s for type T": format, T\<close>
  | CannotConvert string string    \<comment> \<open>"cannot convert %v to T": value, T\<close>
  | InvalidJson                    \<comment> \<open>"Body contains invalid json"\<close>
  | Violation string

text \<open>Decoded JSON (\<open>interface{}\<close> filled by encoding/json); numbers are float64.\<close>

datatype json =
    JNull
  | JBool bool
  | JNumber "64 word"
  | JString string
  | JArray "json list"
  | JObject "(string \<times> json) list"

datatype schema = SchemaOf string

record parameter =
  p_Name :: string
  p_In :: string
  p_Type :: string
  p_Format :: string
  p_Required :: bool
  p_Schema :: "schema option"

text \<open>
  What the code calls and this development does not define: the Unicode part of
  \<open>strings.ToLower\<close>, \<open>strconv.ParseFloat\<close> with the conversion to \<open>float32\<close>,
  the JSON decoder, and the validators \<open>ValidateQuery\<close>, \<open>ValidateBody\<close> and
  \<open>ValidateBySchema\<close>. They are parameters of every function that calls them.
  \<open>json_Decode\<close> gives, for the bytes waiting in a reader, how many of them the
  decoder pulls from the reader and the decoded value (\<open>None\<close> for an error);
  \<open>json_Unmarshal\<close> decodes a byte slice.
\<close>

record lib =
  unicode_ToLower :: "string \<Rightarrow> string"
  ParseFloat :: "string \<Rightarrow> nat \<Rightarrow> 64 word option"
  to_float32 :: "64 word \<Rightarrow> 32 word"
  json_Decode :: "string \<Rightarrow> nat \<times> json option"
  json_Unmarshal :: "string \<Rightarrow> json option"
  ValidateQuery :: "parameter list \<Rightarrow> (string \<rightharpoonup> string list) \<Rightarrow> error list"
  ValidateBody :: "parameter list \<Rightarrow> json \<Rightarrow> error list"
  ValidateBySchema :: "schema \<Rightarrow> json \<Rightarrow> error list"

subsection \<open>strconv.ParseInt in base 10\<close>

text \<open>
  \<open>strconv.ParseInt(s, 10, bitSize)\<close>: an optional sign, then one or more decimal
  digits (no underscores in an explicit base), and the value has to fit \<open>bitSize\<close>
  bits in two's complement. Every failure is an error, here \<open>None\<close>.
\<close>

definition is_digit :: "char \<Rightarrow> bool" where
  "is_digit c = (48 \<le> (of_char c :: nat) \<and> (of_char c :: nat) \<le> 57)"

definition digit_val :: "char \<Rightarrow> nat" where
  "digit_val c = (of_char c :: nat) - 48"

definition ParseUint_digits :: "string \<Rightarrow> nat option" where
  "ParseUint_digits s =
     (if s = [] then None
      else if list_all is_digit s then Some (foldl (\<lambda>n c. 10 * n + digit_val c) 0 s)
      else None)"

definition ParseInt :: "string \<Rightarrow> nat \<Rightarrow> int option" where
  "ParseInt s bitSize =
     (case s of
        [] \<Rightarrow> None
      | c # rest \<Rightarrow>
          (let neg = (c = CHR ''-'');
               s' = (if c = CHR ''+'' \<or> c = CHR ''-'' then rest else s);
               cutoff = (2::nat) ^ (bitSize - 1)
           in case ParseUint_digits s' of
                None \<Rightarrow> None
              | Some un \<Rightarrow>
                  if \<not> neg \<and> un \<ge> cutoff then None
                  else if neg \<and> un > cutoff then None
                  else Some (if neg then - int un else int un)))"

subsection \<open>strings.ToLower\<close>

text \<open>
  \<open>strings.ToLower\<close> has a path of its own for strings of ASCII bytes only, which maps
  \<open>A\<close>..\<open>Z\<close> to \<open>a\<close>..\<open>z\<close>; any other string goes through the Unicode tables.
\<close>

definition is_ascii :: "char \<Rightarrow> bool" where
  "is_ascii c = ((of_char c :: nat) < 128)"

definition ascii_lower :: "char \<Rightarrow> char" where
  "ascii_lower c =
     (if 65 \<le> (of_char c :: nat) \<and> (of_char c :: nat) \<le> 90
      then char_of ((of_char c :: nat) + 32) else c)"

definition ToLower :: "lib \<Rightarrow> string \<Rightarrow> string" where
  "ToLower l s = (if list_all is_ascii s then map ascii_lower s else unicode_ToLower l s)"

section \<open>convert.go\<close>

definition evaluatesAsTrue :: "string list" where
  "evaluatesAsTrue =
     [''true'', ''1'', ''yes'', ''ok'', ''y'', ''on'', ''selected'', ''checked'', ''t'', ''enabled'']"

definition convertString :: "string \<Rightarrow> string \<Rightarrow> error + val" where
  "convertString v format =
     (if format = '''' then Inr (VString v)
      else Inl (UnknownFormat format ''string''))"

definition convertInteger :: "string \<Rightarrow> string \<Rightarrow> error + val" where
  "convertInteger v format =
     (if format = ''int32'' then
        (case ParseInt v 32 of
           None \<Rightarrow> Inl (CannotConvert v ''int32'')
         | Some i \<Rightarrow> Inr (VInt32 (word_of_int i)))
      else if format = ''int64'' \<or> format = '''' then
        (case ParseInt v 64 of
           None \<Rightarrow> Inl (CannotConvert v ''int64'')
         | Some i \<Rightarrow> Inr (VInt64 (word_of_int i)))
      else Inl (UnknownFormat format ''integer''))"

text \<open>The last message of \<open>convertNumber\<close> says "for type integer" in the source.\<close>

definition convertNumber :: "lib \<Rightarrow> string \<Rightarrow> string \<Rightarrow> error + val" where
  "convertNumber l v format =
     (if format = ''float'' then
        (case ParseFloat l v 32 of
           None \<Rightarrow> Inl (CannotConvert v ''float'')
         | Some f \<Rightarrow> Inr (VFloat32 (to_float32 l f)))
      else if format = ''double'' \<or> format = '''' then
        (case ParseFloat l v 64 of
           None \<Rightarrow> Inl (CannotConvert v ''double'')
         | Some f \<Rightarrow> Inr (VFloat64 f))
      else Inl (UnknownFormat format ''integer''))"

definition convertBoolean :: "lib \<Rightarrow> string \<Rightarrow> error + val" where
  "convertBoolean l v = Inr (VBool (ToLower l v \<in> set evaluatesAsTrue))"

definition ConvertPrimitive :: "lib \<Rightarrow> string \<Rightarrow> string \<Rightarrow> string \<Rightarrow> error + val" where
  "ConvertPrimitive l v typ format =
     (if typ = ''string'' then convertString v format
      else if typ = ''number'' then convertNumber l v format
      else if typ = ''integer'' then convertInteger v format
      else if typ = ''boolean'' then convertBoolean l v
      else Inl (UnknownType typ))"

definition ConvertParameter :: "lib \<Rightarrow> string list \<Rightarrow> string \<Rightarrow> string \<Rightarrow> error + val" where
  "ConvertParameter l vals typ format =
     (if typ = ''array'' then Inl (NotImplemented typ)
      else if typ = ''file'' then Inl (NotImplemented typ)
      else if length vals \<noteq> 1 then Inl (ValuesCount (length vals))
      else ConvertPrimitive l (vals ! 0) typ format)"

section \<open>Requests, handlers and response writers\<close>

record response =
  r_Schema :: "schema option"

text \<open>
  An operation of the contract: its identifier, its parameters and
  \<open>Responses.StatusCodeResponses\<close>, a map from status codes to responses.
\<close>

record operation =
  op_ID :: string
  op_Parameters :: "parameter list"
  op_Responses :: "int \<rightharpoonup> response"

text \<open>
  \<open>req.Body\<close> is either the sentinel \<open>http.NoBody\<close> or a reader; a reader is
  given by the bytes that are still unread in it.
\<close>

datatype body = NoBody | Reader string

text \<open>
  The request. Its context holds values under keys of two distinct types, so it is two
  maps: the matched operation (stamped by the router, read by \<open>GetOperation\<close>) and the
  path parameters under \<open>contextKeyPathParam(name)\<close>. \<open>context.WithValue\<close> is a map
  update, \<open>Value\<close> a lookup.
\<close>

record request =
  Method :: string
  URL_Path :: string
  URL_Query :: "string \<rightharpoonup> string list"
  Body :: body
  ctx_Operation :: "operation option"
  ctx_PathParam :: "string \<rightharpoonup> val"

text \<open>
  A handler is \<open>ServeHTTP(w, req)\<close>. Its run is the sequence of the calls it makes on
  the response writer it is given, \<open>WriteHeader\<close> and \<open>Write\<close>, interleaved with
  whatever else it does, which is an \<open>Effect\<close> of any type \<open>'e\<close>. A middleware
  maps a handler to a handler.
\<close>

datatype 'e event = WriteHeader int | Write string | Effect 'e

type_synonym 'e Handler = "request \<Rightarrow> 'e event list"

type_synonym 'e MiddlewareFn = "'e Handler \<Rightarrow> 'e Handler"





text \<open>
  Modelled from the spec: \<open>GetOperation\<close>, the accessor of the matched operation of a
  request, which returns nil when none was stamped.
\<close>

definition GetOperation :: "request \<Rightarrow> operation option" where
  "GetOperation req = ctx_Operation req"

text \<open>
  Modelled from the spec: \<open>operationIDMiddleware\<close>, the operation-identity stamp. It
  derives a request whose context holds the operation and passes it on.
\<close>

definition operationIDMiddleware :: "'e Handler \<Rightarrow> operation \<Rightarrow> 'e Handler" where
  "operationIDMiddleware next op = (\<lambda>req. next (req\<lparr>ctx_Operation := Some op\<rparr>))"




section \<open>middleware.go\<close>

subsection \<open>Query validator\<close>

record 'e queryValidatorMiddleware =
  qv_errHandler :: "error list \<Rightarrow> 'e event list"
  qv_continueOnError :: bool

definition NewQueryValidator :: "(error list \<Rightarrow> 'e event list) \<Rightarrow> 'e queryValidatorMiddleware" where
  "NewQueryValidator errHandler = \<lparr>qv_errHandler = errHandler, qv_continueOnError = False\<rparr>"

definition queryValidator_Apply ::
  "lib \<Rightarrow> 'e queryValidatorMiddleware \<Rightarrow> 'e Handler \<Rightarrow> 'e Handler" where
  "queryValidator_Apply l m next = (\<lambda>req.
     case GetOperation req of
       None \<Rightarrow> next req
     | Some op \<Rightarrow>
         (let errs = ValidateQuery l (op_Parameters op) (URL_Query req)
          in if length errs > 0
             then qv_errHandler m errs @ (if \<not> qv_continueOnError m then [] else next req)
             else next req))"

subsection \<open>Body validator\<close>

record 'e bodyValidatorMiddleware =
  bv_errHandler :: "error list \<Rightarrow> 'e event list"

definition NewBodyValidator :: "(error list \<Rightarrow> 'e event list) \<Rightarrow> 'e bodyValidatorMiddleware" where
  "NewBodyValidator errHandler = \<lparr>bv_errHandler = errHandler\<rparr>"

text \<open>
  The decoder reads from \<open>io.TeeReader(req.Body, &b)\<close>, so the buffer \<open>b\<close> holds the
  bytes the decoder pulled from the body, in order: a prefix of the payload. On
  success \<open>req.Body\<close> is replaced by a reader of \<open>b\<close>. The deferred \<open>Close\<close>
  of the original body has no part in what the handlers are served with and is left out.
\<close>

definition bodyValidator_Apply ::
  "lib \<Rightarrow> 'e bodyValidatorMiddleware \<Rightarrow> 'e Handler \<Rightarrow> 'e Handler" where
  "bodyValidator_Apply l m next = (\<lambda>req.
     case Body req of
       NoBody \<Rightarrow> next req
     | Reader payload \<Rightarrow>
         (case GetOperation req of
            None \<Rightarrow> next req
          | Some op \<Rightarrow>
              (let (n, decoded) = json_Decode l payload;
                   b = take n payload
               in case decoded of
                    None \<Rightarrow> bv_errHandler m [InvalidJson]
                  | Some body \<Rightarrow>
                      (let errs = ValidateBody l (op_Parameters op) body
                       in if length errs > 0 then bv_errHandler m errs
                          else next (req\<lparr>Body := Reader b\<rparr>)))))"

subsection \<open>Path parameter extractor\<close>






subsection \<open>Response body validator\<close>




section \<open>The router\<close>

text \<open>
  A \<open>BaseRouter\<close> is an object behind an interface: \<open>Route\<close> and \<open>Mount\<close> change
  it, and two variables can hold the same router. Routers live in a store, a variable
  holds a reference, and a router is given by the calls made on it so far. A logger is
  the discarding default or a sink that keeps its entries.
\<close>

type_synonym ref = nat

datatype logger = DiscardLogger | SinkLogger nat

record 'e router_obj =
  routes :: "(string \<times> string \<times> 'e Handler) list"
  mounts :: "(string \<times> ref) list"

record 'e store =
  routers :: "ref \<Rightarrow> 'e router_obj"
  next_ref :: ref
  logged :: "(nat \<times> string \<times> string) list"

definition Route :: "ref \<Rightarrow> string \<Rightarrow> string \<Rightarrow> 'e Handler \<Rightarrow> 'e store \<Rightarrow> 'e store" where
  "Route r method pathPattern handler st =
     st\<lparr>routers := (routers st)
           (r := (routers st r)\<lparr>routes := routes (routers st r) @ [(method, pathPattern, handler)]\<rparr>)\<rparr>"

definition Mount :: "ref \<Rightarrow> string \<Rightarrow> ref \<Rightarrow> 'e store \<Rightarrow> 'e store" where
  "Mount r path sub st =
     st\<lparr>routers := (routers st)
           (r := (routers st r)\<lparr>mounts := mounts (routers st r) @ [(path, sub)]\<rparr>)\<rparr>"

definition logf :: "logger \<Rightarrow> string \<Rightarrow> string \<Rightarrow> 'e store \<Rightarrow> 'e store" where
  "logf lg level msg st =
     (case lg of
        DiscardLogger \<Rightarrow> st
      | SinkLogger k \<Rightarrow> st\<lparr>logged := logged st @ [(k, level, msg)]\<rparr>)"

text \<open>
  Modelled from the spec: \<open>defaultBaseRouter\<close>, the default routing engine, a new
  router with no routes and no mounts.
\<close>

definition defaultBaseRouter :: "'e store \<Rightarrow> ref \<times> 'e store" where
  "defaultBaseRouter st =
     (next_ref st,
      st\<lparr>routers := (routers st)(next_ref st := \<lparr>routes = [], mounts = []\<rparr>),
         next_ref := Suc (next_ref st)\<rparr>)"

record 'e RouterOptions =
  logger :: logger
  baseRouter :: ref
  mws :: "'e MiddlewareFn list"

type_synonym 'e RouterOption = "'e RouterOptions \<Rightarrow> 'e RouterOptions"

definition LoggerOpt :: "logger \<Rightarrow> 'e RouterOption" where
  "LoggerOpt lg = (\<lambda>args. args\<lparr>logger := lg\<rparr>)"

definition BaseRouterOpt :: "ref \<Rightarrow> 'e RouterOption" where
  "BaseRouterOpt br = (\<lambda>args. args\<lparr>baseRouter := br\<rparr>)"

definition MiddlewareOpt :: "'e MiddlewareFn \<Rightarrow> 'e RouterOption" where
  "MiddlewareOpt mw = (\<lambda>args. args\<lparr>mws := mws args @ [mw]\<rparr>)"

text \<open>
  The contract: its base path and the view \<open>analysis.New(sw).Operations()\<close>, a map
  from methods to maps from paths to operations, as the association lists in the order
  in which \<open>range\<close> walks them.
\<close>

record swagger =
  BasePath :: string
  Operations :: "(string \<times> (string \<times> operation) list) list"

text \<open>The body of the inner loop of \<open>NewRouter\<close>.\<close>

definition route_operation ::
  "'e RouterOptions \<Rightarrow> (string \<rightharpoonup> 'e Handler) \<Rightarrow> ref \<Rightarrow> string \<Rightarrow> string \<Rightarrow> operation
     \<Rightarrow> 'e store \<Rightarrow> 'e store" where
  "route_operation opts handlers subrouter method path op st =
     (case handlers (op_ID op) of
        None \<Rightarrow>
          logf (logger opts) ''warning''
            (''oas2 router: no handler registered for operation '' @ op_ID op) st
      | Some handler \<Rightarrow>
          (let handler1 = fold (\<lambda>mwf h. mwf h) (mws opts) handler;
               st1 = logf (logger opts) ''debug''
                       (''oas2 router: handle: '' @ method @ '' '' @ path) st;
               handler2 = operationIDMiddleware handler1 op
           in Route subrouter method path handler2 st1))"

definition route_operations ::
  "'e RouterOptions \<Rightarrow> (string \<rightharpoonup> 'e Handler) \<Rightarrow> ref
     \<Rightarrow> (string \<times> (string \<times> operation) list) list \<Rightarrow> 'e store \<Rightarrow> 'e store" where
  "route_operations opts handlers subrouter ops st =
     fold (\<lambda>(method, pathOps).
             fold (\<lambda>(path, op). route_operation opts handlers subrouter method path op) pathOps)
          ops st"

definition NewRouter ::
  "swagger \<Rightarrow> (string \<rightharpoonup> 'e Handler) \<Rightarrow> 'e RouterOption list \<Rightarrow> 'e store
     \<Rightarrow> (ref \<times> error option) \<times> 'e store" where
  "NewRouter sw handlers options st =
     (let (br, st1) = defaultBaseRouter st;
          opts = fold (\<lambda>opt args. opt args) options
                   \<lparr>logger = DiscardLogger, baseRouter = br, mws = []\<rparr>;
          subrouter = baseRouter opts;
          st2 = route_operations opts handlers subrouter (Operations sw) st1;
          router = baseRouter opts;
          st3 = Mount router (BasePath sw) subrouter st2
      in ((router, None), st3))"

section \<open>The routes a build registers\<close>

text \<open>
  The entries that the two loops of \<open>NewRouter\<close> add to the router, in order: one for
  each operation that has a registered handler, with the handler wrapped by every
  middleware of the options and then by the operation-identity stamp.
\<close>

definition composed_routes ::
  "'e RouterOptions \<Rightarrow> (string \<rightharpoonup> 'e Handler) \<Rightarrow> (string \<times> (string \<times> operation) list) list
     \<Rightarrow> (string \<times> string \<times> 'e Handler) list" where
  "composed_routes opts handlers ops =
     concat (map (\<lambda>(method, pathOps).
       concat (map (\<lambda>(path, op).
         case handlers (op_ID op) of
           None \<Rightarrow> []
         | Some h \<Rightarrow>
             [(method, path, operationIDMiddleware (fold (\<lambda>mwf h. mwf h) (mws opts) h) op)])
         pathOps)) ops)"

section \<open>Sample data\<close>

text \<open>
  A concrete instance of the library parameters, for the examples below. Its number
  parser knows the one literal \<open>1.5\<close>. Its decoder stands for encoding/json on two
  kinds of input: an empty reader, where \<open>Decode\<close> fails with \<open>io.EOF\<close>, and a payload
  that starts with the object \<open>{}\<close>, where the decoder fills its buffer with one read of
  at most 512 bytes, finds the value complete at the closing brace and reads no further.
  On any other payload it reads everything and fails.
\<close>

definition sample_lib :: lib where
  "sample_lib =
     \<lparr>unicode_ToLower = (\<lambda>s. s),
      ParseFloat = (\<lambda>s bitSize. if s = ''1.5'' then Some 0x3FF8000000000000 else None),
      to_float32 = (\<lambda>f. if f = 0x3FF8000000000000 then 0x3FC00000 else 0),
      json_Decode = (\<lambda>payload.
         if take 2 payload = ''{}'' then (min 512 (length payload), Some (JObject []))
         else (length payload, None)),
      json_Unmarshal = (\<lambda>b. if b = ''{}'' then Some (JObject []) else None),
      ValidateQuery = (\<lambda>ps q. concat (map (\<lambda>p.
         if p_In p = ''query'' \<and> p_Required p \<and> q (p_Name p) = None
         then [Violation (p_Name p)] else []) ps)),
      ValidateBody = (\<lambda>ps body. []),
      ValidateBySchema = (\<lambda>sch body. if sch = SchemaOf ''object'' then [] else [Violation ''schema''])\<rparr>"

text \<open>
  Handlers and middleware that leave a mark when they run: their name, the identifier of
  the operation they find in the request, and the body they are given. One error handler
  only leaves a mark, the other also writes to the response writer it is given.
\<close>

datatype mark = ErrHandlerCalled "error list" | HandlerCalled string "string option" body

definition marking_handler :: "string \<Rightarrow> mark Handler" where
  "marking_handler name =
     (\<lambda>req. [Effect (HandlerCalled name (map_option op_ID (GetOperation req)) (Body req))])"

definition marking_middleware :: "string \<Rightarrow> mark MiddlewareFn" where
  "marking_middleware name next =
     (\<lambda>req. Effect (HandlerCalled name (map_option op_ID (GetOperation req)) (Body req)) # next req)"

definition marking_errHandler :: "error list \<Rightarrow> mark event list" where
  "marking_errHandler errs = [Effect (ErrHandlerCalled errs)]"


definition id_param :: parameter where
  "id_param = \<lparr>p_Name = ''id'', p_In = ''path'', p_Type = ''integer'', p_Format = ''int64'',
               p_Required = True, p_Schema = None\<rparr>"

definition limit_param :: parameter where
  "limit_param = \<lparr>p_Name = ''limit'', p_In = ''query'', p_Type = ''integer'', p_Format = ''int32'',
               p_Required = True, p_Schema = None\<rparr>"

definition getPet :: operation where
  "getPet = \<lparr>op_ID = ''getPet'', op_Parameters = [limit_param, id_param],
             op_Responses = [200 \<mapsto> \<lparr>r_Schema = Some (SchemaOf ''array'')\<rparr>]\<rparr>"

definition plain_request :: request where
  "plain_request = \<lparr>Method = ''GET'', URL_Path = ''/v2/pet/12'', URL_Query = Map.empty,
                    Body = NoBody, ctx_Operation = None, ctx_PathParam = Map.empty\<rparr>"

definition pet_request :: request where
  "pet_request = plain_request\<lparr>ctx_Operation := Some getPet\<rparr>"

definition long_payload :: string where
  "long_payload = ''{}'' @ replicate 1000 (CHR '' '')"


definition petstore :: swagger where
  "petstore = \<lparr>BasePath = ''/v2'', Operations = [(''GET'', [(''/pet/{id}'', getPet)])]\<rparr>"

definition pet_handlers :: "string \<rightharpoonup> mark Handler" where
  "pet_handlers = [''getPet'' \<mapsto> marking_handler ''H'']"

definition empty_store :: "mark store" where
  "empty_store = \<lparr>routers = (\<lambda>r. \<lparr>routes = [], mounts = []\<rparr>), next_ref = 0, logged = []\<rparr>"

section \<open>The converter\<close>

subsection \<open>What \<open>ParseInt\<close> returns fits the requested width\<close>

lemma ParseInt_Cons:
  "ParseInt (c # rest) bitSize =
     (case ParseUint_digits (if c = CHR ''+'' \<or> c = CHR ''-'' then rest else c # rest) of
        None \<Rightarrow> None
      | Some un \<Rightarrow>
          if c \<noteq> CHR ''-'' \<and> un \<ge> 2 ^ (bitSize - 1) then None
          else if c = CHR ''-'' \<and> un > 2 ^ (bitSize - 1) then None
          else Some (if c = CHR ''-'' then - int un else int un))"
  unfolding ParseInt_def list.case Let_def by (rule refl)

lemma ParseInt_range:
  assumes "ParseInt s bitSize = Some i"
  shows "- (2 ^ (bitSize - 1)) \<le> i \<and> i < 2 ^ (bitSize - 1)"
proof (cases s)
  case Nil
  with assms show ?thesis by (simp add: ParseInt_def)
next
  case (Cons c rest)
  let ?d = "ParseUint_digits (if c = CHR ''+'' \<or> c = CHR ''-'' then rest else c # rest)"
  from assms Cons have eq: "ParseInt (c # rest) bitSize = Some i" by simp
  show ?thesis
  proof (cases ?d)
    case None
    with eq show ?thesis unfolding ParseInt_Cons by simp
  next
    case (Some un)
    show ?thesis
    proof (cases "c = CHR ''-''")
      case True
      from eq have "un \<le> 2 ^ (bitSize - 1) \<and> i = - int un"
        unfolding ParseInt_Cons Some option.case using True
        by (simp split: if_splits)
      then have "int un \<le> 2 ^ (bitSize - 1)" "i = - int un"
        using of_nat_le_iff [of un "2 ^ (bitSize - 1)", where 'a = int] by simp_all
      moreover have "(0::int) < 2 ^ (bitSize - 1)" by simp
      ultimately show ?thesis by linarith
    next
      case False
      from eq have "un < 2 ^ (bitSize - 1) \<and> i = int un"
        unfolding ParseInt_Cons Some option.case using False
        by (simp split: if_splits)
      then have "int un < 2 ^ (bitSize - 1)" "i = int un"
        using of_nat_less_iff [of un "2 ^ (bitSize - 1)", where 'a = int] by simp_all
      moreover have "(0::int) < 2 ^ (bitSize - 1)" by simp
      ultimately show ?thesis by linarith
    qed
  qed
qed

lemma ParseInt_32_sint: "ParseInt s 32 = Some i \<Longrightarrow> sint (word_of_int i :: 32 word) = i"
  using ParseInt_range [of s 32 i]
  by (simp add: signed_of_int signed_take_bit_int_eq_self)

lemma ParseInt_64_sint: "ParseInt s 64 = Some i \<Longrightarrow> sint (word_of_int i :: 64 word) = i"
  using ParseInt_range [of s 64 i]
  by (simp add: signed_of_int signed_take_bit_int_eq_self)

lemma ParseInt_12: "ParseInt ''12'' bitSize = (if 12 < (2::nat) ^ (bitSize - 1) then Some 12 else None)"
  by (simp add: ParseInt_Cons ParseUint_digits_def is_digit_def digit_val_def)


subsection \<open>Single values\<close>

text \<open>
  Claim C5. \<open>ConvertPrimitive\<close> follows the table: for type string an empty format
  returns the value and any other format is an error; for type integer the format
  \<open>int32\<close> parses to 32 bits signed, \<open>int64\<close> or the empty format to 64 bits signed, an
  unparsable value and any other format are errors, and the machine integer returned
  reads back as the number parsed; for type number \<open>float\<close> parses to a 32-bit float,
  \<open>double\<close> or the empty format to a 64-bit float, and anything else is an error; for
  type boolean the result is never an error and is true exactly when the lower-cased
  value is one of the ten words; any other type is the unknown-type error. The function
  is total: every input gives a value or an error.
\<close>

theorem ConvertPrimitive_table:
  "ConvertPrimitive l v ''string'' format =
     (if format = '''' then Inr (VString v) else Inl (UnknownFormat format ''string''))
   \<and> ConvertPrimitive l v ''integer'' ''int32'' =
       (case ParseInt v 32 of
          None \<Rightarrow> Inl (CannotConvert v ''int32'')
        | Some i \<Rightarrow> Inr (VInt32 (word_of_int i)))
   \<and> (\<forall>i. ParseInt v 32 = Some i \<longrightarrow> sint (word_of_int i :: 32 word) = i)
   \<and> (format = '''' \<or> format = ''int64'' \<longrightarrow>
        ConvertPrimitive l v ''integer'' format =
          (case ParseInt v 64 of
             None \<Rightarrow> Inl (CannotConvert v ''int64'')
           | Some i \<Rightarrow> Inr (VInt64 (word_of_int i))))
   \<and> (\<forall>i. ParseInt v 64 = Some i \<longrightarrow> sint (word_of_int i :: 64 word) = i)
   \<and> (format \<noteq> ''int32'' \<and> format \<noteq> ''int64'' \<and> format \<noteq> '''' \<longrightarrow>
        ConvertPrimitive l v ''integer'' format = Inl (UnknownFormat format ''integer''))
   \<and> ConvertPrimitive l v ''number'' ''float'' =
       (case ParseFloat l v 32 of
          None \<Rightarrow> Inl (CannotConvert v ''float'')
        | Some f \<Rightarrow> Inr (VFloat32 (to_float32 l f)))
   \<and> (format = '''' \<or> format = ''double'' \<longrightarrow>
        ConvertPrimitive l v ''number'' format =
          (case ParseFloat l v 64 of
             None \<Rightarrow> Inl (CannotConvert v ''double'')
           | Some f \<Rightarrow> Inr (VFloat64 f)))
   \<and> (format \<noteq> ''float'' \<and> format \<noteq> ''double'' \<and> format \<noteq> '''' \<longrightarrow>
        (\<exists>e. ConvertPrimitive l v ''number'' format = Inl e))
   \<and> ConvertPrimitive l v ''boolean'' format =
       Inr (VBool (ToLower l v \<in> set evaluatesAsTrue))
   \<and> (typ \<noteq> ''string'' \<and> typ \<noteq> ''integer'' \<and> typ \<noteq> ''number'' \<and> typ \<noteq> ''boolean'' \<longrightarrow>
        ConvertPrimitive l v typ format = Inl (UnknownType typ))"
proof -
  have s: "ConvertPrimitive l v ''string'' format =
     (if format = '''' then Inr (VString v) else Inl (UnknownFormat format ''string''))"
    by (simp add: ConvertPrimitive_def convertString_def)
  have i32: "ConvertPrimitive l v ''integer'' ''int32'' =
       (case ParseInt v 32 of
          None \<Rightarrow> Inl (CannotConvert v ''int32'')
        | Some i \<Rightarrow> Inr (VInt32 (word_of_int i)))"
    by (simp add: ConvertPrimitive_def convertInteger_def)
  have i64: "format = '''' \<or> format = ''int64'' \<longrightarrow>
        ConvertPrimitive l v ''integer'' format =
          (case ParseInt v 64 of
             None \<Rightarrow> Inl (CannotConvert v ''int64'')
           | Some i \<Rightarrow> Inr (VInt64 (word_of_int i)))"
    by (auto simp add: ConvertPrimitive_def convertInteger_def)
  have iother: "format \<noteq> ''int32'' \<and> format \<noteq> ''int64'' \<and> format \<noteq> '''' \<longrightarrow>
        ConvertPrimitive l v ''integer'' format = Inl (UnknownFormat format ''integer'')"
    by (simp add: ConvertPrimitive_def convertInteger_def)
  have f32: "ConvertPrimitive l v ''number'' ''float'' =
       (case ParseFloat l v 32 of
          None \<Rightarrow> Inl (CannotConvert v ''float'')
        | Some f \<Rightarrow> Inr (VFloat32 (to_float32 l f)))"
    by (simp add: ConvertPrimitive_def convertNumber_def)
  have f64: "format = '''' \<or> format = ''double'' \<longrightarrow>
        ConvertPrimitive l v ''number'' format =
          (case ParseFloat l v 64 of
             None \<Rightarrow> Inl (CannotConvert v ''double'')
           | Some f \<Rightarrow> Inr (VFloat64 f))"
    by (auto simp add: ConvertPrimitive_def convertNumber_def)
  have fother: "format \<noteq> ''float'' \<and> format \<noteq> ''double'' \<and> format \<noteq> '''' \<longrightarrow>
        (\<exists>e. ConvertPrimitive l v ''number'' format = Inl e)"
    by (simp add: ConvertPrimitive_def convertNumber_def)
  have b: "ConvertPrimitive l v ''boolean'' format =
       Inr (VBool (ToLower l v \<in> set evaluatesAsTrue))"
    by (simp add: ConvertPrimitive_def convertBoolean_def)
  have u: "typ \<noteq> ''string'' \<and> typ \<noteq> ''integer'' \<and> typ \<noteq> ''number'' \<and> typ \<noteq> ''boolean'' \<longrightarrow>
        ConvertPrimitive l v typ format = Inl (UnknownType typ)"
    by (simp add: ConvertPrimitive_def)
  from s i32 i64 iother f32 f64 fother b u ParseInt_32_sint ParseInt_64_sint
  show ?thesis by blast
qed

theorem ConvertPrimitive_table_witness:
  "ConvertPrimitive sample_lib ''12'' ''integer'' ''int32'' = Inr (VInt32 12)
   \<and> ConvertPrimitive sample_lib ''12'' ''integer'' ''date'' = Inl (UnknownFormat ''date'' ''integer'')
   \<and> ConvertPrimitive sample_lib ''12'' ''string'' ''date'' = Inl (UnknownFormat ''date'' ''string'')
   \<and> ConvertPrimitive sample_lib ''12'' ''boolean'' ''date'' = Inr (VBool False)
   \<and> ConvertPrimitive sample_lib ''12'' ''object'' ''date'' = Inl (UnknownType ''object'')
   \<and> ConvertPrimitive sample_lib ''1.5'' ''integer'' '''' = Inl (CannotConvert ''1.5'' ''int64'')
   \<and> ConvertPrimitive sample_lib ''1.5'' ''number'' '''' = Inr (VFloat64 0x3FF8000000000000)
   \<and> ConvertPrimitive sample_lib ''1.5'' ''number'' ''float'' = Inr (VFloat32 0x3FC00000)
   \<and> ConvertPrimitive sample_lib ''1.5'' ''string'' '''' = Inr (VString ''1.5'')
   \<and> ConvertPrimitive sample_lib ''Yes'' ''boolean'' '''' = Inr (VBool True)"
proof -
  have i: "ParseInt ''1.5'' 64 = None"
    by (simp add: ParseInt_Cons ParseUint_digits_def is_digit_def)
  have f: "ParseFloat sample_lib ''1.5'' 64 = Some 0x3FF8000000000000"
    "ParseFloat sample_lib ''1.5'' 32 = Some 0x3FF8000000000000"
    "to_float32 sample_lib 0x3FF8000000000000 = 0x3FC00000"
    by (simp_all add: sample_lib_def)
  have y: "ascii_lower (CHR ''Y'') = CHR ''y''"
    by code_simp
  have b: "ToLower sample_lib ''12'' = ''12''" "ToLower sample_lib ''Yes'' = ''yes''"
    by (simp_all add: ToLower_def is_ascii_def y) (simp_all add: ascii_lower_def)
  from ConvertPrimitive_table [of sample_lib "''12''" "''date''" "''object''"]
    ConvertPrimitive_table [of sample_lib "''1.5''" "''''" "''object''"]
    ConvertPrimitive_table [of sample_lib "''Yes''" "''''" "''object''"]
  show ?thesis
    by (simp add: ParseInt_12 i f b evaluatesAsTrue_def)
qed

subsection \<open>Multiple values\<close>

text \<open>
  Claim C9. \<open>ConvertParameter\<close> returns the not-implemented error for the types array
  and file whatever the values are; for any other type it returns the arity error unless
  exactly one value is given, and with exactly one value it returns what
  \<open>ConvertPrimitive\<close> returns on that value.
\<close>

theorem ConvertParameter_cases:
  "(typ = ''array'' \<or> typ = ''file'' \<longrightarrow>
      ConvertParameter l vals typ format = Inl (NotImplemented typ))
   \<and> (typ \<noteq> ''array'' \<and> typ \<noteq> ''file'' \<and> length vals \<noteq> 1 \<longrightarrow>
      ConvertParameter l vals typ format = Inl (ValuesCount (length vals)))
   \<and> (typ \<noteq> ''array'' \<and> typ \<noteq> ''file'' \<longrightarrow>
      ConvertParameter l [v] typ format = ConvertPrimitive l v typ format)"
  by (simp add: ConvertParameter_def)

theorem ConvertParameter_cases_witness:
  "ConvertParameter sample_lib [''12'', ''13''] ''integer'' '''' = Inl (ValuesCount 2)
   \<and> ConvertParameter sample_lib [''12''] ''integer'' '''' = Inr (VInt64 12)
   \<and> ConvertParameter sample_lib [''12''] ''array'' '''' = Inl (NotImplemented ''array'')
   \<and> ConvertParameter sample_lib [] ''file'' '''' = Inl (NotImplemented ''file'')"
  using ConvertParameter_cases [of "''integer''" sample_lib "[''12'', ''13'']" "''''" "''12''"]
    ConvertParameter_cases [of "''array''" sample_lib "[''12'']" "''''" "''12''"]
    ConvertParameter_cases [of "''file''" sample_lib "[]" "''''" "''12''"]
  by (simp add: ConvertPrimitive_def convertInteger_def ParseInt_12)

section \<open>Properties of the middlewares\<close>

subsection \<open>Query validator\<close>

text \<open>
  Claim C7. For a request with a matched operation: when query validation returns a
  non-empty list, the run of the query validator is the run of the error handler on that
  whole list, once, and nothing else, so the next handler is not served (the
  continue-on-error flag of \<open>NewQueryValidator\<close> is false); when the list is empty, the
  run is that of the next handler and the error handler is not called.
\<close>

theorem queryValidator_stops_on_violations:
  assumes "GetOperation req = Some op"
  shows "(ValidateQuery l (op_Parameters op) (URL_Query req) \<noteq> [] \<longrightarrow>
            queryValidator_Apply l (NewQueryValidator errHandler) next req
              = errHandler (ValidateQuery l (op_Parameters op) (URL_Query req)))
       \<and> (ValidateQuery l (op_Parameters op) (URL_Query req) = [] \<longrightarrow>
            queryValidator_Apply l (NewQueryValidator errHandler) next req = next req)"
  using assms by (simp add: queryValidator_Apply_def NewQueryValidator_def)

text \<open>
  The operation \<open>getPet\<close> requires the query parameter \<open>limit\<close>. Without it the only
  mark is the error handler's, with the one violation; with it the only mark is the
  handler's.
\<close>

theorem queryValidator_stops_on_violations_witness:
  "GetOperation pet_request = Some getPet
   \<and> queryValidator_Apply sample_lib (NewQueryValidator marking_errHandler)
        (marking_handler ''H'') pet_request
       = [Effect (ErrHandlerCalled [Violation ''limit''])]
   \<and> queryValidator_Apply sample_lib (NewQueryValidator marking_errHandler)
        (marking_handler ''H'') (pet_request\<lparr>URL_Query := [''limit'' \<mapsto> [''5'']]\<rparr>)
       = [Effect (HandlerCalled ''H'' (Some ''getPet'') NoBody)]"
proof -
  have op: "GetOperation pet_request = Some getPet"
    by (simp add: GetOperation_def pet_request_def)
  have op': "GetOperation (pet_request\<lparr>URL_Query := [''limit'' \<mapsto> [''5'']]\<rparr>) = Some getPet"
    by (simp add: GetOperation_def pet_request_def)
  have v1: "ValidateQuery sample_lib (op_Parameters getPet) (URL_Query pet_request)
              = [Violation ''limit'']"
    by (simp add: sample_lib_def getPet_def pet_request_def plain_request_def
        limit_param_def id_param_def)
  have v2: "ValidateQuery sample_lib (op_Parameters getPet)
              (URL_Query (pet_request\<lparr>URL_Query := [''limit'' \<mapsto> [''5'']]\<rparr>)) = []"
    by (simp add: sample_lib_def getPet_def pet_request_def plain_request_def
        limit_param_def id_param_def)
  from queryValidator_stops_on_violations [OF op, of sample_lib marking_errHandler "marking_handler ''H''"]
    queryValidator_stops_on_violations [OF op', of sample_lib marking_errHandler "marking_handler ''H''"]
    op v1 v2
  show ?thesis
    by (simp add: marking_errHandler_def marking_handler_def GetOperation_def pet_request_def
        plain_request_def getPet_def)
qed

subsection \<open>Body validator\<close>

text \<open>
  Claim C8 says that the body validator passes the request on whenever the body is empty
  or no operation is matched. The guard of the code is \<open>req.Body == http.NoBody\<close>. A
  request whose body is a reader with no bytes in it (a chunked request with no data)
  is not the sentinel: with a matched operation it is decoded, decoding an empty stream
  fails, and the error handler is called with the invalid-JSON error instead of the next
  handler.
\<close>

theorem bodyValidator_empty_reader_counterexample:
  "bodyValidator_Apply sample_lib (NewBodyValidator marking_errHandler) (marking_handler ''H'')
      (pet_request\<lparr>Body := Reader []\<rparr>)
     = [Effect (ErrHandlerCalled [InvalidJson])]
   \<and> bodyValidator_Apply sample_lib (NewBodyValidator marking_errHandler) (marking_handler ''H'')
      (pet_request\<lparr>Body := Reader []\<rparr>)
     \<noteq> marking_handler ''H'' (pet_request\<lparr>Body := Reader []\<rparr>)"
  by (simp add: bodyValidator_Apply_def NewBodyValidator_def GetOperation_def pet_request_def
      plain_request_def sample_lib_def marking_errHandler_def marking_handler_def)

text \<open>
  Claim C8, amended. The body validator passes the request on unchanged, serving the next
  handler and never calling the error handler, whenever the request body is the sentinel
  \<open>http.NoBody\<close> or no operation is matched.
\<close>

theorem bodyValidator_pass_through:
  assumes "Body req = NoBody \<or> GetOperation req = None"
  shows "bodyValidator_Apply l m next req = next req"
  using assms by (auto simp add: bodyValidator_Apply_def split: body.splits)

text \<open>
  A request without a body for \<open>getPet\<close>, and a request with a body that is not JSON
  but with no matched operation: in both the only mark is the handler's, and it is given
  the body as it came.
\<close>

theorem bodyValidator_pass_through_witness:
  "bodyValidator_Apply sample_lib (NewBodyValidator marking_errHandler) (marking_handler ''H'')
      pet_request = [Effect (HandlerCalled ''H'' (Some ''getPet'') NoBody)]
   \<and> bodyValidator_Apply sample_lib (NewBodyValidator marking_errHandler) (marking_handler ''H'')
      (plain_request\<lparr>Body := Reader ''not json''\<rparr>)
       = [Effect (HandlerCalled ''H'' None (Reader ''not json''))]"
  using bodyValidator_pass_through [of pet_request sample_lib
      "NewBodyValidator marking_errHandler" "marking_handler ''H''"]
    bodyValidator_pass_through [of "plain_request\<lparr>Body := Reader ''not json''\<rparr>" sample_lib
      "NewBodyValidator marking_errHandler" "marking_handler ''H''"]
  by (simp add: GetOperation_def pet_request_def plain_request_def marking_handler_def getPet_def)

text \<open>
  When the body validator accepts a payload, the next handler is served with a body that
  holds the bytes the decoder pulled from the reader: the first \<open>n\<close> bytes of the
  payload, not the payload.
\<close>

lemma bodyValidator_accepts:
  assumes "Body req = Reader payload" and "GetOperation req = Some op"
    and "json_Decode l payload = (n, Some body)"
    and "ValidateBody l (op_Parameters op) body = []"
  shows "bodyValidator_Apply l m next req = next (req\<lparr>Body := Reader (take n payload)\<rparr>)"
  using assms by (simp add: bodyValidator_Apply_def)

lemma take_long_payload: "take 512 long_payload = ''{}'' @ replicate 510 (CHR '' '')"
  by (simp add: long_payload_def)

text \<open>
  Claim C3 says that after the body validator accepts a payload the next handler reads
  exactly the bytes the client sent. At the payload \<open>{}\<close> followed by a thousand
  spaces, 1002 bytes of well-formed JSON, the decoder stops after its first read of 512
  bytes, the buffer behind the tee reader holds those 512 bytes, and the handler is
  served with a body of 512 bytes: the other 490 are lost.
\<close>

theorem bodyValidator_drops_unread_bytes:
  "bodyValidator_Apply sample_lib (NewBodyValidator marking_errHandler) (marking_handler ''H'')
      (pet_request\<lparr>Body := Reader long_payload\<rparr>)
     = [Effect (HandlerCalled ''H'' (Some ''getPet'') (Reader (take 512 long_payload)))]
   \<and> length (take 512 long_payload) = 512 \<and> length long_payload = 1002
   \<and> take 512 long_payload \<noteq> long_payload"
proof -
  have d: "json_Decode sample_lib long_payload = (512, Some (JObject []))"
    by (simp add: sample_lib_def long_payload_def)
  have v: "ValidateBody sample_lib (op_Parameters getPet) (JObject []) = []"
    by (simp add: sample_lib_def)
  have "bodyValidator_Apply sample_lib (NewBodyValidator marking_errHandler) (marking_handler ''H'')
      (pet_request\<lparr>Body := Reader long_payload\<rparr>)
     = marking_handler ''H'' (pet_request\<lparr>Body := Reader long_payload,
          Body := Reader (take 512 long_payload)\<rparr>)"
    by (rule bodyValidator_accepts [OF _ _ d v])
      (simp_all add: GetOperation_def pet_request_def)
  then show ?thesis
    by (simp add: marking_handler_def GetOperation_def pet_request_def getPet_def long_payload_def)
qed

subsection \<open>Path parameter extractor\<close>







subsection \<open>Response body validator\<close>






section \<open>Properties of the router\<close>

subsection \<open>What the loops of \<open>NewRouter\<close> do to the store\<close>

lemma logf_routers [simp]: "routers (logf lg level msg st) = routers st"
  by (cases lg) (simp_all add: logf_def)

lemma logf_next_ref [simp]: "next_ref (logf lg level msg st) = next_ref st"
  by (cases lg) (simp_all add: logf_def)

lemma route_operation_routes:
  "routes (routers (route_operation opts handlers sub method path op st) sub)
     = routes (routers st sub)
       @ (case handlers (op_ID op) of
            None \<Rightarrow> []
          | Some h \<Rightarrow>
              [(method, path, operationIDMiddleware (fold (\<lambda>mwf h. mwf h) (mws opts) h) op)])"
  by (simp add: route_operation_def Route_def Let_def split: option.splits)

lemma route_operation_next_ref [simp]:
  "next_ref (route_operation opts handlers sub method path op st) = next_ref st"
  by (simp add: route_operation_def Route_def Let_def split: option.splits)

lemma fold_path_ops_routes:
  "routes (routers (fold (\<lambda>(path, op). route_operation opts handlers sub method path op)
                      pathOps st) sub)
     = routes (routers st sub)
       @ concat (map (\<lambda>(path, op).
           case handlers (op_ID op) of
             None \<Rightarrow> []
           | Some h \<Rightarrow>
               [(method, path, operationIDMiddleware (fold (\<lambda>mwf h. mwf h) (mws opts) h) op)])
           pathOps)"
proof (induction pathOps arbitrary: st)
  case Nil
  show ?case by simp
next
  case (Cons po pathOps)
  obtain path op where po: "po = (path, op)" by (cases po)
  show ?case
    by (simp add: po Cons.IH route_operation_routes)
qed

lemma fold_path_ops_next_ref [simp]:
  "next_ref (fold (\<lambda>(path, op). route_operation opts handlers sub method path op) pathOps st)
     = next_ref st"
  by (induction pathOps arbitrary: st) (simp_all add: case_prod_beta)

lemma route_operations_routes:
  "routes (routers (route_operations opts handlers sub ops st) sub)
     = routes (routers st sub) @ composed_routes opts handlers ops"
proof (induction ops arbitrary: st)
  case Nil
  show ?case by (simp add: route_operations_def composed_routes_def)
next
  case (Cons mo ops)
  obtain meth pathOps where mo: "mo = (meth, pathOps)" by (cases mo)
  have step: "route_operations opts handlers sub (mo # ops) st
      = route_operations opts handlers sub ops
          (fold (\<lambda>(path, op). route_operation opts handlers sub meth path op) pathOps st)"
    by (simp add: route_operations_def mo)
  have split: "composed_routes opts handlers (mo # ops)
      = concat (map (\<lambda>(path, op).
           case handlers (op_ID op) of
             None \<Rightarrow> []
           | Some h \<Rightarrow>
               [(meth, path, operationIDMiddleware (fold (\<lambda>mwf h. mwf h) (mws opts) h) op)])
           pathOps)
        @ composed_routes opts handlers ops"
    by (simp add: composed_routes_def mo)
  show ?case
    by (simp only: step Cons.IH fold_path_ops_routes split append_assoc)
qed

lemma route_operations_next_ref [simp]:
  "next_ref (route_operations opts handlers sub ops st) = next_ref st"
  unfolding route_operations_def
  by (induction ops arbitrary: st) (simp_all add: case_prod_beta)

lemma composed_routes_member:
  assumes m: "(method, pathOps) \<in> set ops" and p: "(path, op) \<in> set pathOps"
    and h: "handlers (op_ID op) = Some h"
  shows "(method, path, operationIDMiddleware (fold (\<lambda>mwf h. mwf h) (mws opts) h) op)
           \<in> set (composed_routes opts handlers ops)"
proof -
  let ?entry = "(method, path, operationIDMiddleware (fold (\<lambda>mwf h. mwf h) (mws opts) h) op)"
  let ?inner = "\<lambda>method (path, op).
         case handlers (op_ID op) of
           None \<Rightarrow> []
         | Some h \<Rightarrow>
             [(method, path, operationIDMiddleware (fold (\<lambda>mwf h. mwf h) (mws opts) h) op)]"
  have "?entry \<in> set (?inner method (path, op))"
    by (simp add: h)
  with p have "\<exists>po \<in> set pathOps. ?entry \<in> set (?inner method po)"
    by blast
  then have "?entry \<in> set (concat (map (?inner method) pathOps))"
    by simp
  then have "?entry \<in> set (case (method, pathOps) of (method, pathOps) \<Rightarrow>
       concat (map (?inner method) pathOps))"
    by simp
  with m have "\<exists>mo \<in> set ops. ?entry \<in> set (case mo of (method, pathOps) \<Rightarrow>
       concat (map (?inner method) pathOps))"
    by blast
  then show ?thesis
    unfolding composed_routes_def by simp
qed

lemma Mount_routes [simp]: "routes (routers (Mount r path sub st) r') = routes (routers st r')"
  by (simp add: Mount_def)

lemma NewRouter_result:
  "NewRouter sw handlers options st =
     (let opts = fold (\<lambda>opt args. opt args) options
                   \<lparr>logger = DiscardLogger, baseRouter = next_ref st, mws = []\<rparr>;
          st1 = snd (defaultBaseRouter st)
      in ((baseRouter opts, None),
          Mount (baseRouter opts) (BasePath sw) (baseRouter opts)
            (route_operations opts handlers (baseRouter opts) (Operations sw) st1)))"
  by (simp add: NewRouter_def defaultBaseRouter_def Let_def)

lemma two_middleware_options:
  "MiddlewareOpt B (MiddlewareOpt A \<lparr>logger = DiscardLogger, baseRouter = br, mws = []\<rparr>)
     = \<lparr>logger = DiscardLogger, baseRouter = br, mws = [A, B]\<rparr>"
  by (simp add: MiddlewareOpt_def)

subsection \<open>Order of the middleware\<close>

text \<open>
  Claim C1, amended. For a router built with the middleware \<open>A\<close> appended first and \<open>B\<close>
  second, every operation of the contract with a registered handler \<open>H\<close> is routed to the
  handler that runs, at request time, the operation-identity stamp first, then \<open>B\<close>, then
  \<open>A\<close>, then \<open>H\<close>: the stamp puts the operation into the request and serves \<open>B (A H)\<close>
  with it.
\<close>

theorem NewRouter_middleware_order:
  assumes new: "NewRouter sw handlers [MiddlewareOpt A, MiddlewareOpt B] st = ((router, err), st')"
    and ops: "(method, pathOps) \<in> set (Operations sw)" "(path, op) \<in> set pathOps"
    and h: "handlers (op_ID op) = Some H"
  shows "(method, path, operationIDMiddleware (B (A H)) op) \<in> set (routes (routers st' router))
       \<and> (\<forall>req. operationIDMiddleware (B (A H)) op req
                   = B (A H) (req\<lparr>ctx_Operation := Some op\<rparr>))"
proof -
  let ?opts = "\<lparr>logger = DiscardLogger, baseRouter = next_ref st, mws = [A, B]\<rparr>"
  from new have r: "router = next_ref st"
    and st': "st' = Mount router (BasePath sw) router
        (route_operations ?opts handlers router (Operations sw) (snd (defaultBaseRouter st)))"
    by (auto simp add: NewRouter_result two_middleware_options Let_def)
  have "(method, path, operationIDMiddleware (fold (\<lambda>mwf h. mwf h) (mws ?opts) H) op)
          \<in> set (composed_routes ?opts handlers (Operations sw))"
    using composed_routes_member [of "method" pathOps "Operations sw" path op handlers H ?opts]
      ops h by simp
  then have "(method, path, operationIDMiddleware (B (A H)) op)
          \<in> set (composed_routes ?opts handlers (Operations sw))"
    by simp
  then have "(method, path, operationIDMiddleware (B (A H)) op) \<in> set (routes (routers st' router))"
    by (simp add: st' route_operations_routes)
  then show ?thesis by (simp add: operationIDMiddleware_def)
qed

text \<open>The build of the sample contract, on an empty store.\<close>

lemma petstore_router:
  "fst (fst (NewRouter petstore pet_handlers
      [MiddlewareOpt (marking_middleware ''A''), MiddlewareOpt (marking_middleware ''B'')]
      empty_store)) = 0"
  by (simp add: NewRouter_result Let_def empty_store_def MiddlewareOpt_def)

lemma petstore_routes:
  "routes (routers (snd (NewRouter petstore pet_handlers
      [MiddlewareOpt (marking_middleware ''A''), MiddlewareOpt (marking_middleware ''B'')]
      empty_store)) 0) =
     [(''GET'', ''/pet/{id}'',
       operationIDMiddleware
         (marking_middleware ''B'' (marking_middleware ''A'' (marking_handler ''H''))) getPet)]"
  by (simp add: NewRouter_result two_middleware_options Let_def route_operations_routes
      composed_routes_def petstore_def pet_handlers_def getPet_def defaultBaseRouter_def
      empty_store_def)

text \<open>
  The sample contract has the one operation \<open>getPet\<close>. Its route is the stamp around
  \<open>B\<close> around \<open>A\<close> around \<open>H\<close>, and serving a request with it leaves the marks of \<open>B\<close>,
  \<open>A\<close> and \<open>H\<close> in this order, each of them finding the operation in the request.
\<close>

theorem NewRouter_middleware_order_witness:
  "(case NewRouter petstore pet_handlers
           [MiddlewareOpt (marking_middleware ''A''), MiddlewareOpt (marking_middleware ''B'')]
           empty_store of
      ((router, err), st') \<Rightarrow>
        (''GET'', ''/pet/{id}'',
          operationIDMiddleware
            (marking_middleware ''B'' (marking_middleware ''A'' (marking_handler ''H''))) getPet)
          \<in> set (routes (routers st' router)))
   \<and> operationIDMiddleware
        (marking_middleware ''B'' (marking_middleware ''A'' (marking_handler ''H''))) getPet
        plain_request
      = [Effect (HandlerCalled ''B'' (Some ''getPet'') NoBody),
         Effect (HandlerCalled ''A'' (Some ''getPet'') NoBody),
         Effect (HandlerCalled ''H'' (Some ''getPet'') NoBody)]"
proof -
  let ?R = "NewRouter petstore pet_handlers
       [MiddlewareOpt (marking_middleware ''A''), MiddlewareOpt (marking_middleware ''B'')]
       empty_store"
  have new: "?R = ((fst (fst ?R), snd (fst ?R)), snd ?R)"
    by simp
  have ops: "(''GET'', [(''/pet/{id}'', getPet)]) \<in> set (Operations petstore)"
    "(''/pet/{id}'', getPet) \<in> set [(''/pet/{id}'', getPet)]"
    by (simp_all add: petstore_def)
  have h: "pet_handlers (op_ID getPet) = Some (marking_handler ''H'')"
    by (simp add: pet_handlers_def getPet_def)
  have run: "operationIDMiddleware
        (marking_middleware ''B'' (marking_middleware ''A'' (marking_handler ''H''))) getPet
        plain_request
      = [Effect (HandlerCalled ''B'' (Some ''getPet'') NoBody),
         Effect (HandlerCalled ''A'' (Some ''getPet'') NoBody),
         Effect (HandlerCalled ''H'' (Some ''getPet'') NoBody)]"
    by (simp add: operationIDMiddleware_def marking_middleware_def marking_handler_def
        GetOperation_def getPet_def plain_request_def)
  from NewRouter_middleware_order [OF new ops h] run
  show ?thesis
    by (simp add: case_prod_beta)
qed

text \<open>
  Claim C1 says that the order at request time is \<open>A\<close>, then \<open>B\<close>, then the stamp, then
  \<open>H\<close>. In that order \<open>A\<close> and \<open>B\<close> would run before the operation is in the request.
  The handler that \<open>NewRouter\<close> routes runs \<open>B\<close> before \<open>A\<close>, and both find the operation.
\<close>

theorem NewRouter_middleware_order_counterexample:
  "(case NewRouter petstore pet_handlers
           [MiddlewareOpt (marking_middleware ''A''), MiddlewareOpt (marking_middleware ''B'')]
           empty_store of
      ((router, err), st') \<Rightarrow>
        map (\<lambda>(method, path, handler). (method, path, handler plain_request))
          (routes (routers st' router)))
     = [(''GET'', ''/pet/{id}'',
          [Effect (HandlerCalled ''B'' (Some ''getPet'') NoBody),
           Effect (HandlerCalled ''A'' (Some ''getPet'') NoBody),
           Effect (HandlerCalled ''H'' (Some ''getPet'') NoBody)])]
   \<and> [Effect (HandlerCalled ''B'' (Some ''getPet'') NoBody),
       Effect (HandlerCalled ''A'' (Some ''getPet'') NoBody),
       Effect (HandlerCalled ''H'' (Some ''getPet'') NoBody)]
     \<noteq> [Effect (HandlerCalled ''A'' None NoBody),
         Effect (HandlerCalled ''B'' None NoBody),
         Effect (HandlerCalled ''H'' (Some ''getPet'') NoBody)]"
  by (simp add: case_prod_beta petstore_router petstore_routes operationIDMiddleware_def
      marking_middleware_def marking_handler_def GetOperation_def getPet_def plain_request_def)

subsection \<open>Sub-router and top-level router\<close>

text \<open>
  Claim C2 says that the handlers are registered on a fresh sub-router, distinct from the
  top-level router, which is then mounted at the base path on the top-level router. In
  the code \<open>subrouter\<close> and \<open>router\<close> are both \<open>opts.baseRouter\<close>, one object: the
  router returned is mounted on itself at the base path, the routes are registered on
  the returned router itself, and the build creates no router but the default one.
\<close>

theorem NewRouter_mounts_router_on_itself:
  "(case NewRouter sw handlers options st of
      ((router, err), st') \<Rightarrow>
        (BasePath sw, router) \<in> set (mounts (routers st' router))
        \<and> next_ref st' = Suc (next_ref st)
        \<and> set (composed_routes
                 (fold (\<lambda>opt args. opt args) options
                    \<lparr>logger = DiscardLogger, baseRouter = next_ref st, mws = []\<rparr>)
                 handlers (Operations sw))
            \<subseteq> set (routes (routers st' router)))"
  by (simp add: NewRouter_result Let_def route_operations_routes Mount_def defaultBaseRouter_def)

subsection \<open>The error result\<close>


end
